theory Spec2Isabelle
  imports Complex_Main "HOL-Library.Product_Lexorder"
begin

section \<open>Numbers\<close>

text \<open>
  The program computes on IEEE doubles (NumPy arrays and Python floats). The model keeps
  the three kinds of non-finite value the code tests for, and idealises the finite doubles
  as real numbers: rounding error and overflow of finite arithmetic are not modelled.
\<close>

datatype pyfloat = Fin real | NaN | PInf | MInf

text \<open>\<^verbatim>\<open>np.isfinite\<close>: neither NaN nor an infinity.\<close>

fun isfinite :: "pyfloat \<Rightarrow> bool" where
  "isfinite (Fin x) = True"
| "isfinite NaN = False"
| "isfinite PInf = False"
| "isfinite MInf = False"

text \<open>
  Python's \<^verbatim>\<open>round(x, ndigits)\<close> on a finite value: to the nearest multiple of
  \<open>10 ^ -ndigits\<close>, a tie going to the even neighbour.
\<close>

definition py_round :: "nat \<Rightarrow> real \<Rightarrow> real" where
  "py_round ndigits x =
     (let y = x * 10 ^ ndigits;
          f = \<lfloor>y\<rfloor>;
          d = y - of_int f
      in if d < 1 / 2 then of_int f / 10 ^ ndigits
         else if 1 / 2 < d then of_int (f + 1) / 10 ^ ndigits
         else if even f then of_int f / 10 ^ ndigits
         else of_int (f + 1) / 10 ^ ndigits)"

section \<open>Band filtering (seismic\_processor.py)\<close>

text \<open>
  \<^verbatim>\<open>scipy.signal.butter\<close> and \<^verbatim>\<open>scipy.signal.filtfilt\<close> are library code outside
  the repository. They are parameters of the model: \<open>butter order Wn btype\<close> yields the
  coefficients or raises (\<open>None\<close>); \<open>filtfilt coeffs data\<close> yields the filtered samples,
  raises \<^verbatim>\<open>ValueError\<close>, or raises something else.
\<close>

datatype btype = Highpass | Lowpass | Bandpass

datatype filtfilt_result = ValueError | OtherError | Filtered "pyfloat list"

text \<open>The value of the \<^verbatim>\<open>'reason'\<close> key of a failure status.\<close>

datatype reason =
    empty_data
  | invalid_data
  | frequency_too_high
  | invalid_band
  | filter_produced_invalid
  | filter_error
  | unexpected_error

text \<open>The \<^verbatim>\<open>'parameters'\<close> dictionary of a success status.\<close>

record filter_parameters =
  low_freq :: "real option"
  high_freq :: "real option"
  order :: nat
  sampling_rate :: real

text \<open>
  The status dictionary: \<^verbatim>\<open>{'success': False, 'reason': r, ...}\<close> or
  \<^verbatim>\<open>{'success': True, 'filter_type': t, 'parameters': p}\<close>.
\<close>

datatype status = Failure reason | Success btype filter_parameters

fun success :: "status \<Rightarrow> bool" where
  "success (Failure r) = False"
| "success (Success t p) = True"

text \<open>\<^verbatim>\<open>self.filter_order\<close>, set in the constructor.\<close>

definition filter_order :: nat where
  "filter_order = 4"

text \<open>
  The outcome of the filter design: an early return with a failure reason, an exception
  caught by the outer handler, or the coefficients with the filter type and the cutoffs
  that go into the status.
\<close>

datatype 'c design =
    Rejected reason
  | Raised
  | Designed 'c btype "real option" "real option"

text \<open>
  \<open>freq / nyquist\<close> for each critical frequency, then \<^verbatim>\<open>butter\<close>. A division by a
  zero Nyquist frequency and a failing \<^verbatim>\<open>butter\<close> both raise inside the outer
  \<^verbatim>\<open>try\<close>.
\<close>

definition call_butter ::
  "(nat \<Rightarrow> real list \<Rightarrow> btype \<Rightarrow> 'c option) \<Rightarrow> nat \<Rightarrow> real list \<Rightarrow> real \<Rightarrow> btype \<Rightarrow>
   real option \<Rightarrow> real option \<Rightarrow> 'c design" where
  "call_butter butter ord freqs nyquist t lo hi =
     (if nyquist = 0 then Raised
      else case butter ord (map (\<lambda>f. f / nyquist) freqs) t of
             None \<Rightarrow> Raised
           | Some c \<Rightarrow> Designed c t lo hi)"

text \<open>
  The high-pass branch (\<^verbatim>\<open>low_freq is None or low_freq <= 0\<close>). With
  \<^verbatim>\<open>high_freq\<close> \<^verbatim>\<open>None\<close> the comparison \<^verbatim>\<open>high_freq >= nyquist * 0.95\<close> raises
  \<^verbatim>\<open>TypeError\<close>.
\<close>

definition design_highpass ::
  "(nat \<Rightarrow> real list \<Rightarrow> btype \<Rightarrow> 'c option) \<Rightarrow> nat \<Rightarrow> real \<Rightarrow> real option \<Rightarrow> real option \<Rightarrow>
   'c design" where
  "design_highpass butter ord nyquist lo hi =
     (case hi of
        None \<Rightarrow> Raised
      | Some h \<Rightarrow>
          if nyquist * 0.95 \<le> h then Rejected frequency_too_high
          else call_butter butter ord [h] nyquist Highpass lo hi)"

text \<open>The low-pass branch (\<^verbatim>\<open>high_freq is None or high_freq >= nyquist\<close>).\<close>

definition design_lowpass ::
  "(nat \<Rightarrow> real list \<Rightarrow> btype \<Rightarrow> 'c option) \<Rightarrow> nat \<Rightarrow> real \<Rightarrow> real \<Rightarrow> real option \<Rightarrow>
   'c design" where
  "design_lowpass butter ord nyquist l hi =
     (if nyquist * 0.95 \<le> l then Rejected frequency_too_high
      else call_butter butter ord [l] nyquist Lowpass (Some l) hi)"

text \<open>The band-pass branch, with its two silent adjustments of the cutoffs.\<close>

definition design_bandpass ::
  "(nat \<Rightarrow> real list \<Rightarrow> btype \<Rightarrow> 'c option) \<Rightarrow> nat \<Rightarrow> real \<Rightarrow> real \<Rightarrow> real \<Rightarrow> 'c design" where
  "design_bandpass butter ord nyquist l h =
     (if h \<le> l then Rejected invalid_band
      else
        let h' = (if nyquist * 0.95 \<le> h then nyquist * 0.9 else h);
            l' = (if l \<le> 0.001 then 0.005 else l)
        in call_butter butter ord [l', h'] nyquist Bandpass (Some l') (Some h'))"

text \<open>The \<^verbatim>\<open>if / elif / else\<close> that picks the filter type.\<close>

definition design_filter ::
  "(nat \<Rightarrow> real list \<Rightarrow> btype \<Rightarrow> 'c option) \<Rightarrow> nat \<Rightarrow> real \<Rightarrow> real option \<Rightarrow> real option \<Rightarrow>
   'c design" where
  "design_filter butter ord nyquist lo hi =
     (case lo of
        None \<Rightarrow> design_highpass butter ord nyquist lo hi
      | Some l \<Rightarrow>
          if l \<le> 0 then design_highpass butter ord nyquist lo hi
          else (case hi of
                  None \<Rightarrow> design_lowpass butter ord nyquist l hi
                | Some h \<Rightarrow>
                    if nyquist \<le> h then design_lowpass butter ord nyquist l hi
                    else design_bandpass butter ord nyquist l h))"

text \<open>
  \<^verbatim>\<open>apply_bandpass_filter(data, sampling_rate, low_freq, high_freq, order=None)\<close>:
  the pair of the returned samples and the status.
\<close>

definition apply_bandpass_filter ::
  "(nat \<Rightarrow> real list \<Rightarrow> btype \<Rightarrow> 'c option) \<Rightarrow> ('c \<Rightarrow> pyfloat list \<Rightarrow> filtfilt_result) \<Rightarrow>
   pyfloat list \<Rightarrow> real \<Rightarrow> real option \<Rightarrow> real option \<Rightarrow> nat option \<Rightarrow> pyfloat list \<times> status" where
  "apply_bandpass_filter butter filtfilt data0 rate lo hi order0 =
     (let ord = (case order0 of None \<Rightarrow> filter_order | Some n \<Rightarrow> n) in
      if length data0 = 0 then (data0, Failure empty_data)
      else
        let dirty = list_ex (\<lambda>x. \<not> isfinite x) data0;
            clean_data = filter isfinite data0
        in if dirty \<and> real (length clean_data) < real (length data0) * 0.5
           then (data0, Failure invalid_data)
           else
             let data = (if dirty then clean_data else data0);
                 nyquist = rate / 2
             in case design_filter butter ord nyquist lo hi of
                  Rejected r \<Rightarrow> (data, Failure r)
                | Raised \<Rightarrow> (data, Failure unexpected_error)
                | Designed c t lo' hi' \<Rightarrow>
                    (case filtfilt c data of
                       ValueError \<Rightarrow> (data, Failure filter_error)
                     | OtherError \<Rightarrow> (data, Failure unexpected_error)
                     | Filtered ys \<Rightarrow>
                         if list_ex (\<lambda>y. \<not> isfinite y) ys
                         then (data, Failure filter_produced_invalid)
                         else (ys, Success t
                                 \<lparr>low_freq = lo', high_freq = hi', order = ord,
                                  sampling_rate = rate\<rparr>)))"

text \<open>
  A concrete stand-in for the two library functions, used to run the model: a design that
  always succeeds and a filter that passes its input through unchanged.
\<close>

definition unit_butter :: "nat \<Rightarrow> real list \<Rightarrow> btype \<Rightarrow> unit option" where
  "unit_butter ord wn t = Some ()"

definition pass_filtfilt :: "unit \<Rightarrow> pyfloat list \<Rightarrow> filtfilt_result" where
  "pass_filtfilt c xs = Filtered xs"

section \<open>Arithmetic on possibly non-finite values\<close>

text \<open>
  The IEEE behaviour of the operations that \<^verbatim>\<open>calculate_ms_magnitude\<close> applies to
  values that may be NaN or infinite.
\<close>

fun pf_abs :: "pyfloat \<Rightarrow> pyfloat" where
  "pf_abs (Fin x) = Fin \<bar>x\<bar>"
| "pf_abs NaN = NaN"
| "pf_abs PInf = PInf"
| "pf_abs MInf = PInf"

text \<open>\<open><\<close>: false as soon as one side is NaN.\<close>

fun pf_less :: "pyfloat \<Rightarrow> pyfloat \<Rightarrow> bool" where
  "pf_less (Fin x) (Fin y) = (x < y)"
| "pf_less (Fin x) PInf = True"
| "pf_less MInf (Fin y) = True"
| "pf_less MInf PInf = True"
| "pf_less a b = False"

text \<open>\<open>>=\<close>, the comparison that names the component used.\<close>

definition pf_ge :: "pyfloat \<Rightarrow> pyfloat \<Rightarrow> bool" where
  "pf_ge a b = (pf_less b a \<or> (a = b \<and> a \<noteq> NaN))"

fun pf_add :: "pyfloat \<Rightarrow> pyfloat \<Rightarrow> pyfloat" where
  "pf_add (Fin x) (Fin y) = Fin (x + y)"
| "pf_add NaN b = NaN"
| "pf_add a NaN = NaN"
| "pf_add PInf MInf = NaN"
| "pf_add MInf PInf = NaN"
| "pf_add PInf b = PInf"
| "pf_add a PInf = PInf"
| "pf_add MInf b = MInf"
| "pf_add a MInf = MInf"

text \<open>\<^verbatim>\<open>x ** 2\<close>.\<close>

fun pf_square :: "pyfloat \<Rightarrow> pyfloat" where
  "pf_square (Fin x) = Fin (x * x)"
| "pf_square NaN = NaN"
| "pf_square PInf = PInf"
| "pf_square MInf = PInf"

text \<open>\<^verbatim>\<open>x * k\<close> and \<^verbatim>\<open>x / k\<close> for a finite constant \<open>k > 0\<close> (1000 and 20.0 in the code).\<close>

fun pf_scale :: "pyfloat \<Rightarrow> real \<Rightarrow> pyfloat" where
  "pf_scale (Fin x) k = Fin (x * k)"
| "pf_scale NaN k = NaN"
| "pf_scale PInf k = PInf"
| "pf_scale MInf k = MInf"

fun pf_sqrt :: "pyfloat \<Rightarrow> pyfloat" where
  "pf_sqrt (Fin x) = (if x < 0 then NaN else Fin (sqrt x))"
| "pf_sqrt NaN = NaN"
| "pf_sqrt PInf = PInf"
| "pf_sqrt MInf = NaN"

text \<open>\<^verbatim>\<open>np.log10\<close>: minus infinity at zero, NaN below.\<close>

fun pf_log10 :: "pyfloat \<Rightarrow> pyfloat" where
  "pf_log10 (Fin x) = (if x < 0 then NaN else if x = 0 then MInf else Fin (log 10 x))"
| "pf_log10 NaN = NaN"
| "pf_log10 PInf = PInf"
| "pf_log10 MInf = NaN"

text \<open>\<^verbatim>\<open>round(x, 1)\<close> on a NumPy double: non-finite values pass through.\<close>

fun pf_round1 :: "pyfloat \<Rightarrow> pyfloat" where
  "pf_round1 (Fin x) = Fin (py_round 1 x)"
| "pf_round1 NaN = NaN"
| "pf_round1 PInf = PInf"
| "pf_round1 MInf = MInf"

text \<open>
  \<^verbatim>\<open>np.max\<close> of an array: raises on an empty array (\<open>None\<close>), is NaN when a NaN is
  present, and the largest element otherwise.
\<close>

definition np_max :: "pyfloat list \<Rightarrow> pyfloat option" where
  "np_max xs =
     (case xs of
        [] \<Rightarrow> None
      | x # rest \<Rightarrow>
          Some (if list_ex (\<lambda>y. y = NaN) xs then NaN
                else fold (\<lambda>y m. if pf_less m y then y else m) rest x))"

text \<open>Python's builtin \<^verbatim>\<open>max(a, b)\<close>: the first argument unless the second is greater.\<close>

definition py_max :: "pyfloat \<Rightarrow> pyfloat \<Rightarrow> pyfloat" where
  "py_max a b = (if pf_less a b then b else a)"

text \<open>
  An elementwise binary operation on two NumPy arrays: equal lengths go pointwise, an array
  of length one is broadcast, any other pair of lengths raises (\<open>None\<close>).
\<close>

definition broadcast2 :: "('a \<Rightarrow> 'a \<Rightarrow> 'b) \<Rightarrow> 'a list \<Rightarrow> 'a list \<Rightarrow> 'b list option" where
  "broadcast2 f xs ys =
     (if length xs = length ys then Some (map2 f xs ys)
      else if length xs = 1 then Some (map (f (hd xs)) ys)
      else if length ys = 1 then Some (map (\<lambda>x. f x (hd ys)) xs)
      else None)"

section \<open>Surface-wave magnitude (seismic\_processor.py)\<close>

datatype component = Vertikal | Horizontal

text \<open>The quantities that the explanation text is formatted from.\<close>

record explanation =
  used_component :: component
  max_north :: pyfloat
  max_east :: pyfloat
  max_vert :: pyfloat
  max_horizontal :: pyfloat
  amplitude_um :: pyfloat
  period_s :: real
  distance_deg :: real
  filter_low :: real
  filter_high :: real
  depth_correction :: real

text \<open>The \<^verbatim>\<open>'error'\<close> key of the three validation failures.\<close>

datatype ms_failure = Afstand_for_kort | Afstand_for_lang | Sampling_rate_for_lav

datatype exn = NameError

text \<open>
  What a call of \<^verbatim>\<open>calculate_ms_magnitude\<close> ends in: the pair of the magnitude and the
  explanation, the pair of \<^verbatim>\<open>None\<close> and a failure dictionary, or an exception that
  leaves the function.
\<close>

datatype ms_outcome =
    Magnitude pyfloat explanation
  | NoMagnitude ms_failure
  | Escapes exn

text \<open>\<^verbatim>\<open>np.max(np.abs(a)) * 1000\<close>.\<close>

definition peak_um :: "pyfloat list \<Rightarrow> pyfloat option" where
  "peak_um a = map_option (\<lambda>m. pf_scale m 1000) (np_max (map pf_abs a))"

text \<open>\<^verbatim>\<open>np.sqrt(north**2 + east**2) * 1000\<close>.\<close>

definition horizontal_amplitudes :: "pyfloat list \<Rightarrow> pyfloat list \<Rightarrow> pyfloat list option" where
  "horizontal_amplitudes north east =
     map_option (map (\<lambda>s. pf_scale (pf_sqrt s) 1000))
       (broadcast2 pf_add (map pf_square north) (map pf_square east))"

text \<open>
  The body of the \<^verbatim>\<open>try\<close> block; \<open>None\<close> stands for an exception raised inside it.
  The status returned by each filter call is discarded, as in the source.
\<close>

definition ms_try_body ::
  "(nat \<Rightarrow> real list \<Rightarrow> btype \<Rightarrow> 'c option) \<Rightarrow> ('c \<Rightarrow> pyfloat list \<Rightarrow> filtfilt_result) \<Rightarrow>
   pyfloat list \<Rightarrow> pyfloat list \<Rightarrow> pyfloat list \<Rightarrow> real \<Rightarrow> real \<Rightarrow> real option \<Rightarrow>
   ms_outcome option" where
  "ms_try_body butter filtfilt north_data east_data vertical_data dist_km rate depth_km =
     (if dist_km < 200 then Some (NoMagnitude Afstand_for_kort)
      else if 16000 < dist_km then Some (NoMagnitude Afstand_for_lang)
      else
        let nyquist = rate / 2 in
        if nyquist < 0.5 then Some (NoMagnitude Sampling_rate_for_lav)
        else
          let lowf = 0.02;
              highf = min 0.5 (nyquist * 0.9);
              filtered_vert =
                fst (apply_bandpass_filter butter filtfilt vertical_data rate (Some lowf) (Some highf) None);
              filtered_north =
                fst (apply_bandpass_filter butter filtfilt north_data rate (Some lowf) (Some highf) None);
              filtered_east =
                fst (apply_bandpass_filter butter filtfilt east_data rate (Some lowf) (Some highf) None)
          in case peak_um filtered_vert of None \<Rightarrow> None | Some mv \<Rightarrow>
             (case peak_um filtered_north of None \<Rightarrow> None | Some mn \<Rightarrow>
             (case peak_um filtered_east of None \<Rightarrow> None | Some me \<Rightarrow>
             (case horizontal_amplitudes filtered_north filtered_east of None \<Rightarrow> None | Some hs \<Rightarrow>
             (case np_max hs of None \<Rightarrow> None | Some mh \<Rightarrow>
                let amplitude = py_max mv mh;
                    used = (if pf_ge mv mh then Vertikal else Horizontal);
                    period = 20;
                    deg = dist_km / 111.195;
                    ms = pf_add (pf_add (pf_log10 (pf_scale amplitude (1 / period)))
                                        (Fin (1.66 * log 10 deg)))
                                (Fin 3.3);
                    deep = (case depth_km of None \<Rightarrow> False | Some d \<Rightarrow> d \<noteq> 0 \<and> 50 < d);
                    correction = (case depth_km of
                                    None \<Rightarrow> 0
                                  | Some d \<Rightarrow> if deep then - 0.0035 * (d - 50) else 0);
                    ms' = (if deep then pf_add ms (Fin correction) else ms)
                in Some (Magnitude (pf_round1 ms')
                     \<lparr>used_component = used, max_north = mn, max_east = me, max_vert = mv,
                      max_horizontal = mh, amplitude_um = amplitude, period_s = period,
                      distance_deg = deg, filter_low = lowf, filter_high = highf,
                      depth_correction = correction\<rparr>))))))"

text \<open>
  \<^verbatim>\<open>calculate_ms_magnitude\<close>. The \<^verbatim>\<open>except Exception\<close> handler builds its dictionary
  with \<^verbatim>\<open>traceback.format_exc()\<close>; the name \<^verbatim>\<open>traceback\<close> is bound neither in this
  function nor at module level (the module imports it only locally, inside three other
  functions), so evaluating the handler raises \<^verbatim>\<open>NameError\<close>, which leaves the function.
\<close>

definition calculate_ms_magnitude ::
  "(nat \<Rightarrow> real list \<Rightarrow> btype \<Rightarrow> 'c option) \<Rightarrow> ('c \<Rightarrow> pyfloat list \<Rightarrow> filtfilt_result) \<Rightarrow>
   pyfloat list \<Rightarrow> pyfloat list \<Rightarrow> pyfloat list \<Rightarrow> real \<Rightarrow> real \<Rightarrow> real option \<Rightarrow> ms_outcome" where
  "calculate_ms_magnitude butter filtfilt north_data east_data vertical_data dist_km rate depth_km =
     (case ms_try_body butter filtfilt north_data east_data vertical_data dist_km rate depth_km of
        Some r \<Rightarrow> r
      | None \<Rightarrow> Escapes NameError)"

section \<open>Spike removal (seismic\_processor.py)\<close>







text \<open>The magnitude of an outcome, when there is one.\<close>

fun magnitude_of :: "ms_outcome \<Rightarrow> pyfloat option" where
  "magnitude_of (Magnitude m e) = Some m"
| "magnitude_of (NoMagnitude f) = None"
| "magnitude_of (Escapes x) = None"


section \<open>Station discovery (data\_manager.py)\<close>

text \<open>
  A station dictionary. The keys that no modelled operation reads (elevation, azimuth,
  distance in degrees, arrival times, channel counts and codes) are left out. A key that
  the code reads with \<^verbatim>\<open>.get(key, default)\<close> is an option, \<open>None\<close> when the key is absent
  or holds \<^verbatim>\<open>None\<close>.
\<close>

record station_info =
  network :: string
  station :: string
  latitude :: real
  longitude :: real
  distance_km :: real
  sample_rate :: "real option"
  network_priority :: "nat option"
  channel_priority :: "nat option"
  operational_years :: "int option"
  data_verified :: "bool option"
  verified_channels :: "string option"
  data_source :: "string option"

text \<open>The truth value of \<^verbatim>\<open>x.get('data_verified', False)\<close>.\<close>

definition verified :: "station_info \<Rightarrow> bool" where
  "verified s = (data_verified s = Some True)"

text \<open>
  \<^verbatim>\<open>validate_single\<close>: the availability probe of one station. \<open>probe net sta channels\<close>
  tells whether \<^verbatim>\<open>client.get_waveforms\<close> returned a non-empty stream for that channel
  pattern (a call that raises counts as no data).
\<close>

definition validate_single :: "(string \<Rightarrow> string \<Rightarrow> string \<Rightarrow> bool) \<Rightarrow> station_info \<Rightarrow> station_info" where
  "validate_single probe s =
     (if probe (network s) (station s) ''HH?''
      then s\<lparr>data_verified := Some True, verified_channels := Some ''HH?''\<rparr>
      else if probe (network s) (station s) ''BH?''
      then s\<lparr>data_verified := Some True, verified_channels := Some ''BH?''\<rparr>
      else s\<lparr>data_verified := Some False\<rparr>)"

text \<open>
  The loop \<^verbatim>\<open>for future in as_completed(futures)\<close> over the probe results in their order of
  completion: it breaks once \<^verbatim>\<open>verified_count >= target_count * 2\<close>, and otherwise appends
  the result and counts it when verified.
\<close>

fun collect_results :: "nat \<Rightarrow> station_info list \<Rightarrow> station_info list \<Rightarrow> nat \<Rightarrow> station_info list" where
  "collect_results target [] validated verified_count = validated"
| "collect_results target (r # rest) validated verified_count =
     (if target * 2 \<le> verified_count then validated
      else collect_results target rest (validated @ [r])
             (if verified r then verified_count + 1 else verified_count))"

text \<open>The key of the final \<^verbatim>\<open>validated.sort\<close>: verified stations first, then by distance.\<close>

definition verified_first_key :: "station_info \<Rightarrow> bool \<times> real" where
  "verified_first_key x = (\<not> verified x, distance_km x)"

text \<open>
  \<^verbatim>\<open>_validate_stations_parallel\<close>. The thread pool is modelled by \<open>completion\<close>, which
  puts the probe results into the order in which they complete.
\<close>

definition validate_stations_parallel ::
  "(string \<Rightarrow> string \<Rightarrow> string \<Rightarrow> bool) \<Rightarrow> (station_info list \<Rightarrow> station_info list) \<Rightarrow>
   station_info list \<Rightarrow> nat \<Rightarrow> station_info list" where
  "validate_stations_parallel probe completion stations target =
     sort_key verified_first_key
       (collect_results target (completion (map (validate_single probe) stations)) [] 0)"

text \<open>
  The same function with its timing. Each submitted probe comes with the time, counted from
  the submission, at which it finishes; \<^verbatim>\<open>as_completed\<close> yields the probes in the order
  of these times. The test \<^verbatim>\<open>verified_count >= target_count * 2\<close> is the first statement
  of the loop body, so it runs when the next probe has been yielded: \<open>loop_left_at\<close> is
  the time at which the loop is left, by \<^verbatim>\<open>break\<close> or because every probe has been
  yielded. The loop is inside \<^verbatim>\<open>with ThreadPoolExecutor(max_workers=10) as executor\<close>,
  whose exit calls \<^verbatim>\<open>executor.shutdown(wait=True)\<close>: the function goes on to the final
  sort only when the last probe has finished. The time spent in the loop body and in the
  sort is taken as zero.
\<close>

fun loop_left_at :: "nat \<Rightarrow> (nat \<times> station_info) list \<Rightarrow> nat \<Rightarrow> nat \<Rightarrow> nat" where
  "loop_left_at target [] verified_count now = now"
| "loop_left_at target ((t, r) # rest) verified_count now =
     (if target * 2 \<le> verified_count then t
      else loop_left_at target rest
             (if verified r then verified_count + 1 else verified_count) t)"

definition last_probe_done :: "(nat \<times> station_info) list \<Rightarrow> nat" where
  "last_probe_done runs = fold max (map fst runs) 0"

text \<open>The list returned, and the time at which the function returns.\<close>

definition validate_stations_timed ::
  "(string \<Rightarrow> string \<Rightarrow> string \<Rightarrow> bool) \<Rightarrow> (nat \<times> station_info) list \<Rightarrow> nat \<Rightarrow>
   station_info list \<times> nat" where
  "validate_stations_timed probe runs target =
     (let yielded = sort_key fst (map (\<lambda>(t, s). (t, validate_single probe s)) runs)
      in (sort_key verified_first_key (collect_results target (map snd yielded) [] 0),
          max (loop_left_at target yielded 0 0) (last_probe_done runs)))"


text \<open>Python's \<^verbatim>\<open>min(xs, key=f)\<close> on a non-empty list: the first element of least key.\<close>

definition first_min_by :: "('a \<Rightarrow> real) \<Rightarrow> 'a list \<Rightarrow> 'a" where
  "first_min_by f xs = fold (\<lambda>x m. if f x < f m then x else m) (tl xs) (hd xs)"

text \<open>\<^verbatim>\<open>np.linspace(a, b, num)\<close>.\<close>

definition linspace :: "real \<Rightarrow> real \<Rightarrow> nat \<Rightarrow> real list" where
  "linspace a b num = map (\<lambda>i. a + real i * ((b - a) / real (num - 1))) [0..<num]"

text \<open>The de-duplication by network and station code, keeping first occurrences.\<close>

fun unique_stations :: "(string \<times> string) list \<Rightarrow> station_info list \<Rightarrow> station_info list" where
  "unique_stations seen [] = []"
| "unique_stations seen (s # rest) =
     (if List.member seen (network s, station s) then unique_stations seen rest
      else s # unique_stations ((network s, station s) # seen) rest)"

text \<open>One round of the loop over the bins: the free station nearest the bin centre.\<close>

definition pick_from_bin ::
  "station_info list \<Rightarrow> real \<times> real \<Rightarrow> station_info list \<times> nat list \<Rightarrow> station_info list \<times> nat list" where
  "pick_from_bin sorted_stations bin acc =
     (let bin_start = fst bin; bin_end = snd bin;
          bin_center = (bin_start + bin_end) / 2;
          available = filter (\<lambda>js. \<not> List.member (snd acc) (fst js) \<and>
                                    bin_start \<le> distance_km (snd js) \<and>
                                    distance_km (snd js) \<le> bin_end)
                        (enumerate 0 sorted_stations)
      in if available = [] then acc
         else let best = first_min_by (\<lambda>js. \<bar>distance_km (snd js) - bin_center\<bar>) available
              in (fst acc @ [snd best], snd acc @ [fst best]))"

text \<open>One round of the fill-up loop of the fast algorithm.\<close>

definition fill_up ::
  "nat \<Rightarrow> nat \<times> station_info \<Rightarrow> station_info list \<times> nat list \<Rightarrow> station_info list \<times> nat list" where
  "fill_up target_count js acc =
     (if \<not> List.member (snd acc) (fst js) \<and> length (fst acc) < target_count
      then (fst acc @ [snd js], snd acc @ [fst js])
      else acc)"

text \<open>The fast algorithm, for more than 100 stations.\<close>

definition select_fast :: "station_info list \<Rightarrow> nat \<Rightarrow> station_info list" where
  "select_fast stations target_count =
     (let uniq = unique_stations [] stations in
      if length uniq \<le> target_count then uniq
      else
        let sorted_stations = sort_key distance_km uniq;
            distances = map distance_km sorted_stations;
            bin_edges = linspace (Min (set distances)) (Max (set distances)) (target_count + 1);
            bins = zip bin_edges (tl bin_edges);
            picked = fold (pick_from_bin sorted_stations) bins ([], []);
            filled = (if length (fst picked) < target_count
                      then fold (fill_up target_count) (enumerate 0 sorted_stations) picked
                      else picked)
        in take target_count (fst filled))"

text \<open>The key that ranks the stations inside one bucket.\<close>

definition bucket_key :: "station_info \<Rightarrow> nat \<times> real \<times> nat" where
  "bucket_key x =
     (case network_priority x of None \<Rightarrow> 99 | Some p \<Rightarrow> p,
      - (case sample_rate x of None \<Rightarrow> 0 | Some r \<Rightarrow> r),
      case channel_priority x of None \<Rightarrow> 99 | Some p \<Rightarrow> p)"

text \<open>
  The bucket algorithm, for at most 100 stations. The bucket width divides by
  \<^verbatim>\<open>target_count\<close>; with \<^verbatim>\<open>target_count\<close> zero that raises (\<open>None\<close>).
\<close>

definition select_buckets :: "station_info list \<Rightarrow> nat \<Rightarrow> station_info list option" where
  "select_buckets stations target_count =
     (let stations_sorted = sort_key distance_km stations;
          min_dist = distance_km (hd stations_sorted);
          max_dist = distance_km (last stations_sorted)
      in if target_count = 0 then None
         else
           let bucket_size = (max_dist - min_dist) / real target_count;
               buckets = filter (\<lambda>b. b \<noteq> [])
                           (map (\<lambda>i. filter (\<lambda>s. min_dist + real i * bucket_size \<le> distance_km s \<and>
                                                  distance_km s < min_dist + (real i + 1) * bucket_size)
                                        stations_sorted)
                                [0..<target_count]);
               selected = map (\<lambda>b. hd (sort_key bucket_key b)) buckets;
               remaining = filter (\<lambda>s. \<not> List.member selected s) stations_sorted
           in Some (take target_count
                      (selected @ take (target_count - length selected) remaining)))"

text \<open>\<^verbatim>\<open>_select_distributed_stations\<close>.\<close>

definition select_distributed_stations :: "station_info list \<Rightarrow> nat \<Rightarrow> station_info list option" where
  "select_distributed_stations stations target_count =
     (if length stations \<le> target_count then Some stations
      else if 100 < length stations then Some (select_fast stations target_count)
      else select_buckets stations target_count)"

text \<open>The hardcoded list of \<^verbatim>\<open>_fallback_station_list_optimized\<close>.\<close>

definition analysis_ready_stations :: "(string \<times> string \<times> real \<times> real) list" where
  "analysis_ready_stations =
     [(''IU'', ''KEV'', 69.76, 27.01),
      (''II'', ''BFO'', 48.33, 8.33),
      (''GE'', ''STU'', 48.77, 9.19),
      (''DK'', ''BSD'', 55.11, 14.91),
      (''DK'', ''COP'', 55.68, 12.43),
      (''NS'', ''BSEG'', 62.20, 5.22),
      (''UP'', ''UDD'', 64.51, 21.04)]"

text \<open>
  The station built from one entry of the list, when its distance is in range.
  \<open>geo lat1 lon1 lat2 lon2\<close> is the distance in metres that ObsPy's
  \<^verbatim>\<open>gps2dist_azimuth\<close> computes, \<open>None\<close> when it raises.
\<close>

definition fallback_entry ::
  "(real \<Rightarrow> real \<Rightarrow> real \<Rightarrow> real \<Rightarrow> real option) \<Rightarrow> real \<Rightarrow> real \<Rightarrow> real \<Rightarrow> real \<Rightarrow>
   string \<times> string \<times> real \<times> real \<Rightarrow> station_info list" where
  "fallback_entry geo eq_lat eq_lon min_km max_km sta_data =
     (case sta_data of (net, sta, lat, lon) \<Rightarrow>
        (case geo eq_lat eq_lon lat lon of
           None \<Rightarrow> []
         | Some distance_m \<Rightarrow>
             let km = distance_m / 1000 in
             if min_km \<le> km \<and> km \<le> max_km
             then [\<lparr>network = net, station = sta, latitude = lat, longitude = lon,
                    distance_km = py_round 1 km, sample_rate = None, network_priority = None,
                    channel_priority = None, operational_years = None, data_verified = None,
                    verified_channels = None,
                    data_source = Some ''ANALYSIS_READY_FALLBACK''\<rparr>]
             else []))"

text \<open>\<^verbatim>\<open>_fallback_station_list_optimized\<close>.\<close>

definition fallback_station_list_optimized ::
  "(real \<Rightarrow> real \<Rightarrow> real \<Rightarrow> real \<Rightarrow> real option) \<Rightarrow> real \<Rightarrow> real \<Rightarrow> real \<Rightarrow> real \<Rightarrow> nat \<Rightarrow>
   station_info list" where
  "fallback_station_list_optimized geo eq_lat eq_lon min_km max_km target =
     take target
       (sort_key distance_km
          (concat (map (fallback_entry geo eq_lat eq_lon min_km max_km) analysis_ready_stations)))"

text \<open>
  The outcome of the catalog step of \<^verbatim>\<open>search_stations\<close>: either
  \<^verbatim>\<open>client.get_stations\<close> raises, or the inventory goes through
  \<^verbatim>\<open>_process_inventory_to_stations\<close>, which yields the list of usable stations. The
  ObsPy inventory objects and the session cache are not modelled.
\<close>

datatype catalog_outcome = QueryRaises | Usable "station_info list"

text \<open>The key of the sort by quality and distance.\<close>

definition quality_key :: "station_info \<Rightarrow> nat \<times> nat \<times> int \<times> real" where
  "quality_key x =
     (case network_priority x of None \<Rightarrow> 99 | Some p \<Rightarrow> p,
      case channel_priority x of None \<Rightarrow> 99 | Some p \<Rightarrow> p,
      - (case operational_years x of None \<Rightarrow> 0 | Some y \<Rightarrow> y),
      distance_km x)"

text \<open>
  Step 4 of \<^verbatim>\<open>search_stations\<close>: all selected stations are probed when there are at most
  20 of them; otherwise only the first \<open>min (target * 3) 15\<close>, and the rest is appended
  with the status unknown.
\<close>

definition validate_selected ::
  "(string \<Rightarrow> string \<Rightarrow> string \<Rightarrow> bool) \<Rightarrow> (station_info list \<Rightarrow> station_info list) \<Rightarrow>
   station_info list \<Rightarrow> nat \<Rightarrow> station_info list" where
  "validate_selected probe completion selected_stations target =
     (if length selected_stations \<le> 20
      then validate_stations_parallel probe completion selected_stations target
      else
        let quick_validate_count = min (target * 3) 15
        in validate_stations_parallel probe completion
             (take quick_validate_count selected_stations) target
           @ map (\<lambda>s. s\<lparr>data_verified := None\<rparr>) (drop quick_validate_count selected_stations))"

text \<open>
  \<^verbatim>\<open>search_stations(earthquake, min_distance_km, max_distance_km, target_stations,
  progress_placeholder=None)\<close>. \<open>has_time\<close> says that the origin time of the earthquake
  parses, \<open>has_placeholder\<close> that a progress placeholder was passed. Every exception
  raised inside the \<^verbatim>\<open>try\<close> block ends in \<^verbatim>\<open>return []\<close>: a failing catalog query, the
  division by zero of the bucket algorithm, and the call
  \<^verbatim>\<open>progress_placeholder.warning(...)\<close> on \<^verbatim>\<open>None\<close> in the branch for an empty station
  list.
\<close>

definition search_stations ::
  "(real \<Rightarrow> real \<Rightarrow> real \<Rightarrow> real \<Rightarrow> real option) \<Rightarrow> (string \<Rightarrow> string \<Rightarrow> string \<Rightarrow> bool) \<Rightarrow>
   (station_info list \<Rightarrow> station_info list) \<Rightarrow> bool \<Rightarrow> real \<Rightarrow> real \<Rightarrow> catalog_outcome \<Rightarrow>
   real \<Rightarrow> real \<Rightarrow> nat \<Rightarrow> bool \<Rightarrow> station_info list" where
  "search_stations geo probe completion has_time eq_lat eq_lon catalog min_km max_km target
     has_placeholder =
     (if \<not> has_time then []
      else case catalog of
        QueryRaises \<Rightarrow> []
      | Usable all_stations \<Rightarrow>
          if all_stations = [] then
            (if has_placeholder
             then fallback_station_list_optimized geo eq_lat eq_lon min_km max_km target
             else [])
          else
            let ranked = sort_key quality_key all_stations;
                candidates_count =
                  (if 1000 < length ranked then min (length ranked) (target * 3)
                   else min (length ranked) (target * 5));
                candidates = take candidates_count ranked
            in (case select_distributed_stations candidates (target * 2) of
                  None \<Rightarrow> []
                | Some selected_stations \<Rightarrow>
                    take target (validate_selected probe completion selected_stations target)))"

text \<open>
  The stations that \<^verbatim>\<open>search_stations\<close> selects for verification from a catalog (steps
  2 and 3 of the function), and the condition of its step 4 that at most 20 are selected.
  The condition holds when no selection is made.
\<close>

definition selected_for_validation :: "station_info list \<Rightarrow> nat \<Rightarrow> station_info list option" where
  "selected_for_validation all_stations target =
     (let ranked = sort_key quality_key all_stations;
          candidates_count =
            (if 1000 < length ranked then min (length ranked) (target * 3)
             else min (length ranked) (target * 5));
          candidates = take candidates_count ranked
      in select_distributed_stations candidates (target * 2))"

definition at_most_20_selected :: "catalog_outcome \<Rightarrow> nat \<Rightarrow> bool" where
  "at_most_20_selected catalog target =
     (case catalog of
        QueryRaises \<Rightarrow> True
      | Usable all_stations \<Rightarrow>
          (case selected_for_validation all_stations target of
             None \<Rightarrow> True
           | Some selected_stations \<Rightarrow> length selected_stations \<le> 20))"

text \<open>
  The ordering that the final list is meant to have: the verified stations first, by
  ascending distance, then the others, by ascending distance.
\<close>

definition ordered_verified_first :: "station_info list \<Rightarrow> bool" where
  "ordered_verified_first xs =
     (list_all (\<lambda>s. \<not> verified s) (dropWhile verified xs) \<and>
      sorted (map distance_km (takeWhile verified xs)) \<and>
      sorted (map distance_km (dropWhile verified xs)))"

text \<open>Concrete stand-ins used to run the model.\<close>

definition geo_2000km :: "real \<Rightarrow> real \<Rightarrow> real \<Rightarrow> real \<Rightarrow> real option" where
  "geo_2000km lat1 lon1 lat2 lon2 = Some 2000000"

definition probe_none :: "string \<Rightarrow> string \<Rightarrow> string \<Rightarrow> bool" where
  "probe_none net sta channels = False"

definition probe_all :: "string \<Rightarrow> string \<Rightarrow> string \<Rightarrow> bool" where
  "probe_all net sta channels = True"

definition in_order :: "station_info list \<Rightarrow> station_info list" where
  "in_order xs = xs"

definition catalog_station :: "string \<Rightarrow> nat \<Rightarrow> real \<Rightarrow> station_info" where
  "catalog_station sta prio km =
     \<lparr>network = ''XX'', station = sta, latitude = 0, longitude = 0, distance_km = km,
      sample_rate = Some 40, network_priority = Some prio, channel_priority = Some 2,
      operational_years = Some 10, data_verified = None, verified_channels = None,
      data_source = None\<rparr>"


text \<open>
  Fifteen stations of a preferred network between 1000 and 2400 km, and six stations of
  another network between 500 and 550 km.
\<close>

definition far_and_near :: "station_info list" where
  "far_and_near =
     [catalog_station ''F00'' 1 1000, catalog_station ''F01'' 1 1100,
      catalog_station ''F02'' 1 1200, catalog_station ''F03'' 1 1300,
      catalog_station ''F04'' 1 1400, catalog_station ''F05'' 1 1500,
      catalog_station ''F06'' 1 1600, catalog_station ''F07'' 1 1700,
      catalog_station ''F08'' 1 1800, catalog_station ''F09'' 1 1900,
      catalog_station ''F10'' 1 2000, catalog_station ''F11'' 1 2100,
      catalog_station ''F12'' 1 2200, catalog_station ''F13'' 1 2300,
      catalog_station ''F14'' 1 2400,
      catalog_station ''N00'' 2 500, catalog_station ''N01'' 2 510,
      catalog_station ''N02'' 2 520, catalog_station ''N03'' 2 530,
      catalog_station ''N04'' 2 540, catalog_station ''N05'' 2 550]"


section \<open>Properties of the band filter\<close>

lemma no_nonfinite: "list_all isfinite xs \<Longrightarrow> \<not> list_ex (\<lambda>x. \<not> isfinite x) xs"
  by (auto simp: list_all_iff list_ex_iff)

text \<open>
  Whatever the library filter does, the samples handed back are finite unless the call
  fails with \<^verbatim>\<open>invalid_data\<close>: the input is cleaned first and a non-finite filter output
  is refused.
\<close>

lemma returned_samples_finite:
  assumes "snd (apply_bandpass_filter butter filtfilt data rate lo hi ord) \<noteq> Failure invalid_data"
  shows "list_all isfinite (fst (apply_bandpass_filter butter filtfilt data rate lo hi ord))"
  using assms
  by (auto simp: apply_bandpass_filter_def Let_def list_all_iff list_ex_iff
      split: design.splits filtfilt_result.splits if_splits)

text \<open>With the pass-through filter every call on finite samples hands the samples back.\<close>

lemma pass_through:
  assumes "list_all isfinite data"
  shows "fst (apply_bandpass_filter butter pass_filtfilt data rate lo hi ord) = data"
  using no_nonfinite [OF assms]
  by (simp add: apply_bandpass_filter_def Let_def pass_filtfilt_def split: design.splits)

text \<open>
  Claim C2, as stated, at its own input: with a sampling rate of 20 Hz the cutoff 11 Hz is
  not below the Nyquist frequency of 10 Hz, so the request takes the low-pass branch. The
  status is a low-pass success whose recorded high cutoff is still 11, not a band-pass
  success with the cutoff clamped to 9.
\<close>

theorem nyquist_clamp_counterexample:
  "apply_bandpass_filter unit_butter pass_filtfilt [Fin 1, Fin 2, Fin 3] 20 (Some 1) (Some 11) None =
     ([Fin 1, Fin 2, Fin 3],
      Success Lowpass \<lparr>low_freq = Some 1, high_freq = Some 11, order = 4, sampling_rate = 20\<rparr>)"
  by (simp add: apply_bandpass_filter_def design_filter_def design_lowpass_def call_butter_def
      unit_butter_def pass_filtfilt_def filter_order_def)

text \<open>
  Claim C2, amended: a band-pass request whose high cutoff lies in the interval from 0.95
  times the Nyquist frequency up to, but excluding, the Nyquist frequency is answered with
  the high cutoff clamped to 0.9 times the Nyquist frequency and a band-pass success,
  whenever the filter design succeeds and the filtered samples are finite.
\<close>

theorem bandpass_clamp_below_nyquist:
  assumes "data \<noteq> []" "list_all isfinite data"
    and "0 < l" "l < h" "rate / 2 * 0.95 \<le> h" "h < rate / 2"
    and "butter (case ord of None \<Rightarrow> filter_order | Some n \<Rightarrow> n)
           [(if l \<le> 0.001 then 0.005 else l) / (rate / 2), rate / 2 * 0.9 / (rate / 2)] Bandpass
         = Some c"
    and "filtfilt c data = Filtered ys" "list_all isfinite ys"
  shows "apply_bandpass_filter butter filtfilt data rate (Some l) (Some h) ord =
      (ys, Success Bandpass
             \<lparr>low_freq = Some (if l \<le> 0.001 then 0.005 else l),
              high_freq = Some (rate / 2 * 0.9),
              order = (case ord of None \<Rightarrow> filter_order | Some n \<Rightarrow> n),
              sampling_rate = rate\<rparr>)"
proof -
  have nz: "rate / 2 \<noteq> 0" using assms by auto
  have ne: "\<not> list_ex (\<lambda>x. \<not> isfinite x) data" "\<not> list_ex (\<lambda>x. \<not> isfinite x) ys"
    using assms by (simp_all add: no_nonfinite)
  show ?thesis using assms nz ne
    by (simp add: apply_bandpass_filter_def design_filter_def design_bandpass_def
        call_butter_def Let_def)
qed

theorem bandpass_clamp_below_nyquist_witness:
  "apply_bandpass_filter unit_butter pass_filtfilt [Fin 1, Fin 2, Fin 3] 20 (Some 1) (Some 9.7) None =
     ([Fin 1, Fin 2, Fin 3],
      Success Bandpass \<lparr>low_freq = Some 1, high_freq = Some 9, order = 4, sampling_rate = 20\<rparr>)"
  using bandpass_clamp_below_nyquist [of "[Fin 1, Fin 2, Fin 3]" 1 "9.7" 20 unit_butter None "()"
      pass_filtfilt "[Fin 1, Fin 2, Fin 3]"]
  by (simp add: unit_butter_def pass_filtfilt_def filter_order_def)

text \<open>
  Claim C3, as stated, at low = 12, high = 11 and a sampling rate of 20 Hz: the request
  fails, but with the reason \<^verbatim>\<open>frequency_too_high\<close>, because a high cutoff at or above the
  Nyquist frequency sends the request to the low-pass branch before the band is compared.
\<close>

theorem invalid_band_reason_counterexample:
  "snd (apply_bandpass_filter unit_butter pass_filtfilt [Fin 1] 20 (Some 12) (Some 11) None) =
     Failure frequency_too_high"
  by (simp add: apply_bandpass_filter_def design_filter_def design_lowpass_def)

text \<open>
  Claim C3, amended: for every request with both cutoffs given, \<open>0 < low\<close> and
  \<open>high \<le> low\<close>, the status is a failure, never a success. Its reason is \<^verbatim>\<open>empty_data\<close>
  for empty input, \<^verbatim>\<open>invalid_data\<close> when non-finite samples are present and fewer than half
  of the samples are finite, \<^verbatim>\<open>frequency_too_high\<close> when the high cutoff is at or above the
  Nyquist frequency, and \<^verbatim>\<open>invalid_band\<close> otherwise.
\<close>

theorem band_low_ge_high_fails:
  assumes "0 < l" "h \<le> l"
  shows "snd (apply_bandpass_filter butter filtfilt data rate (Some l) (Some h) ord) =
     Failure (if data = [] then empty_data
              else if list_ex (\<lambda>x. \<not> isfinite x) data \<and>
                      real (length (filter isfinite data)) < real (length data) * 0.5
                   then invalid_data
              else if rate / 2 \<le> h then frequency_too_high
              else invalid_band)"
proof -
  have d: "design_filter butter n (rate / 2) (Some l) (Some h) =
      Rejected (if rate / 2 \<le> h then frequency_too_high else invalid_band)" for n
    using assms by (auto simp: design_filter_def design_lowpass_def design_bandpass_def)
  show ?thesis
    by (simp add: apply_bandpass_filter_def Let_def d)
qed

theorem band_low_ge_high_fails_witness:
  "snd (apply_bandpass_filter unit_butter pass_filtfilt [Fin 1] 20 (Some 5) (Some 3) None) =
     Failure invalid_band"
  using band_low_ge_high_fails [of 5 3 unit_butter pass_filtfilt "[Fin 1]" 20 None]
  by simp



section \<open>Properties of the magnitude computation\<close>

lemma fold_max_Fin:
  "fold (\<lambda>y m. if pf_less m y then y else m) (map Fin ys) (Fin x) = Fin (fold max ys x)"
  by (induction ys arbitrary: x) (auto simp: max_def)

lemma np_max_Fin: "xs \<noteq> [] \<Longrightarrow> np_max (map Fin xs) = Some (Fin (Max (set xs)))"
proof (cases xs)
  case Nil
  assume "xs \<noteq> []"
  with Nil show ?thesis by simp
next
  case (Cons x rest)
  have "\<not> list_ex (\<lambda>y. y = NaN) (map Fin (x # rest))"
    by (auto simp: list_ex_iff)
  moreover have "Max (set (x # rest)) = fold max rest x"
    by (rule Max.set_eq_fold)
  ultimately show ?thesis
    using Cons fold_max_Fin [of rest x]
    by (simp add: np_max_def del: set_simps)
qed

lemma peak_um_Fin:
  "xs \<noteq> [] \<Longrightarrow> peak_um (map Fin xs) = Some (Fin (Max (set (map abs xs)) * 1000))"
proof -
  assume ne: "xs \<noteq> []"
  have "map pf_abs (map Fin xs) = map Fin (map abs xs)" by simp
  then show ?thesis
    using np_max_Fin [of "map abs xs"] ne by (simp add: peak_um_def del: map_map)
qed

lemma horizontal_Fin:
  assumes "length ns = length es"
  shows "horizontal_amplitudes (map Fin ns) (map Fin es) =
     Some (map Fin (map2 (\<lambda>n e. sqrt (n\<^sup>2 + e\<^sup>2) * 1000) ns es))"
proof -
  have "map2 pf_add (map pf_square (map Fin ns)) (map pf_square (map Fin es)) =
        map Fin (map2 (\<lambda>n e. n * n + e * e) ns es)"
    using assms by (induction ns es rule: list_induct2) simp_all
  moreover have "map (\<lambda>s. pf_scale (pf_sqrt s) 1000) (map Fin (map2 (\<lambda>n e. n * n + e * e) ns es)) =
        map Fin (map2 (\<lambda>n e. sqrt (n\<^sup>2 + e\<^sup>2) * 1000) ns es)"
    using assms by (induction ns es rule: list_induct2) (simp_all add: power2_eq_square not_less)
  ultimately show ?thesis
    using assms by (simp add: horizontal_amplitudes_def broadcast2_def del: map_map)
qed

lemma py_max_Fin: "py_max (Fin a) (Fin b) = Fin (max a b)"
  by (auto simp: py_max_def max_def)

text \<open>
  The value computed on finite filtered components \<open>zs\<close> (vertical), \<open>ns\<close> (north) and
  \<open>es\<close> (east) with a positive amplitude.
\<close>

lemma ms_formula_general:
  assumes bounds: "200 \<le> d" "d \<le> 16000" "0.5 \<le> rate / 2"
    and fv: "fst (apply_bandpass_filter butter filtfilt vertical rate (Some 0.02)
                 (Some (min 0.5 (rate / 2 * 0.9))) None) = map Fin zs"
    and fn: "fst (apply_bandpass_filter butter filtfilt north rate (Some 0.02)
                 (Some (min 0.5 (rate / 2 * 0.9))) None) = map Fin ns"
    and fe: "fst (apply_bandpass_filter butter filtfilt east rate (Some 0.02)
                 (Some (min 0.5 (rate / 2 * 0.9))) None) = map Fin es"
    and ne: "zs \<noteq> []" "ns \<noteq> []" and len: "length ns = length es"
    and A: "A = max (Max (set (map abs zs)) * 1000)
                    (Max (set (map2 (\<lambda>n e. sqrt (n\<^sup>2 + e\<^sup>2) * 1000) ns es)))"
    and pos: "0 < A"
  shows "magnitude_of (calculate_ms_magnitude butter filtfilt north east vertical d rate depth) =
     Some (Fin (py_round 1 (log 10 (A / 20) + 1.66 * log 10 (d / 111.195) + 3.3 +
            (case depth of None \<Rightarrow> 0 | Some dp \<Rightarrow> if 50 < dp then - 0.0035 * (dp - 50) else 0))))"
proof -
  have es: "es \<noteq> []" using ne len by auto
  have hne: "map2 (\<lambda>n e. sqrt (n\<^sup>2 + e\<^sup>2) * 1000) ns es \<noteq> []"
    using ne es by (cases ns; cases es) simp_all
  have mh: "np_max (map Fin (map2 (\<lambda>n e. sqrt (n\<^sup>2 + e\<^sup>2) * 1000) ns es)) =
      Some (Fin (Max (set (map2 (\<lambda>n e. sqrt (n\<^sup>2 + e\<^sup>2) * 1000) ns es))))"
    using np_max_Fin [OF hne] .
  have nb: "\<not> d < 200" "\<not> 16000 < d" "\<not> rate / 2 < 0.5" using bounds by auto
  show ?thesis
    unfolding calculate_ms_magnitude_def ms_try_body_def Let_def fv fn fe
    using nb pos
    by (simp add: peak_um_Fin ne es horizontal_Fin len mh py_max_Fin A
        split: option.splits del: map_map)
qed

text \<open>
  Claim C1: for a call that reaches the formula step (distance within 200 to 16000 km,
  Nyquist frequency at least 0.5 Hz, finite non-empty components of matching length coming
  back from the band filter, positive amplitude), the magnitude returned is
  \<open>log10 (A / 20) + 1.66 * log10 (distance_km / 111.195) + 3.3\<close>, plus
  \<open>- 0.0035 * (depth_km - 50)\<close> exactly when a depth above 50 km is given, rounded to one
  decimal; \<open>A\<close> is the larger, in micrometres, of the vertical peak absolute amplitude and
  the peak of the sample-by-sample horizontal vector \<open>sqrt (north\<^sup>2 + east\<^sup>2)\<close>, both taken
  on what the band filter returned.
\<close>

theorem ms_magnitude_formula:
  assumes "200 \<le> d" "d \<le> 16000" "0.5 \<le> rate / 2"
    and "fst (apply_bandpass_filter butter filtfilt vertical rate (Some 0.02)
                 (Some (min 0.5 (rate / 2 * 0.9))) None) = map Fin zs"
    and "fst (apply_bandpass_filter butter filtfilt north rate (Some 0.02)
                 (Some (min 0.5 (rate / 2 * 0.9))) None) = map Fin ns"
    and "fst (apply_bandpass_filter butter filtfilt east rate (Some 0.02)
                 (Some (min 0.5 (rate / 2 * 0.9))) None) = map Fin es"
    and "zs \<noteq> []" "ns \<noteq> []" "length ns = length es"
    and "A = max (Max (set (map abs zs)) * 1000)
                 (Max (set (map2 (\<lambda>n e. sqrt (n\<^sup>2 + e\<^sup>2) * 1000) ns es)))"
    and "0 < A"
  shows "magnitude_of (calculate_ms_magnitude butter filtfilt north east vertical d rate depth) =
     Some (Fin (py_round 1 (log 10 (A / 20) + 1.66 * log 10 (d / 111.195) + 3.3 +
            (case depth of None \<Rightarrow> 0 | Some dp \<Rightarrow> if 50 < dp then - 0.0035 * (dp - 50) else 0))))"
  using assms by (rule ms_formula_general)

theorem ms_magnitude_formula_witness:
  "magnitude_of (calculate_ms_magnitude unit_butter pass_filtfilt [Fin 0] [Fin 0] [Fin 5]
       1500 100 (Some 60)) =
     Some (Fin (py_round 1 (log 10 (5000 / 20) + 1.66 * log 10 (1500 / 111.195) + 3.3 +
                            - 0.0035 * (60 - 50))))"
proof -
  have f: "fst (apply_bandpass_filter unit_butter pass_filtfilt (map Fin xs) 100 (Some 0.02)
                 (Some (min 0.5 (100 / 2 * 0.9))) None) = map Fin xs" for xs
    by (rule pass_through) (simp add: list_all_iff)
  show ?thesis
    using ms_magnitude_formula [of 1500 100 unit_butter pass_filtfilt "map Fin [5]" "[5]"
        "map Fin [0]" "[0]" "map Fin [0]" "[0]" 5000 "Some 60", OF _ _ _ f f f]
    by simp
qed











text \<open>
  Claim C8 fails on the code: with three empty component arrays (distance 1500 km, 100 Hz)
  every filter call returns the empty array, \<^verbatim>\<open>np.max\<close> of it raises inside the
  \<^verbatim>\<open>try\<close> block, and the handler's own \<^verbatim>\<open>traceback.format_exc()\<close> raises
  \<^verbatim>\<open>NameError\<close>, which reaches the caller.
\<close>

theorem ms_handler_raises:
  "calculate_ms_magnitude unit_butter pass_filtfilt [] [] [] 1500 100 None = Escapes NameError"
  by (simp add: calculate_ms_magnitude_def ms_try_body_def apply_bandpass_filter_def
      peak_um_def np_max_def)

section \<open>Properties of spike removal\<close>







section \<open>Properties of station discovery\<close>

lemma collect_prefix:
  "target * 2 \<le> cnt + length (filter verified pre) \<Longrightarrow>
   collect_results target (pre @ rest) acc cnt = collect_results target pre acc cnt"
proof (induction pre arbitrary: acc cnt)
  case Nil
  then show ?case by (cases rest) simp_all
next
  case (Cons r pre)
  show ?case
  proof (cases "verified r")
    case True
    with Cons.prems have "target * 2 \<le> Suc cnt + length (filter verified pre)" by simp
    from Cons.IH [OF this] True show ?thesis by simp
  next
    case False
    with Cons.prems have "target * 2 \<le> cnt + length (filter verified pre)" by simp
    from Cons.IH [OF this] False show ?thesis by simp
  qed
qed

lemma collect_length:
  "cnt \<le> length acc \<Longrightarrow>
   target \<le> length (collect_results target cs acc cnt) \<or>
   length (collect_results target cs acc cnt) = length acc + length cs"
proof (induction cs arbitrary: acc cnt)
  case Nil
  then show ?case by simp
next
  case (Cons r cs)
  show ?case
  proof (cases "target * 2 \<le> cnt")
    case True
    with Cons.prems show ?thesis by simp
  next
    case False
    have "(if verified r then cnt + 1 else cnt) \<le> length (acc @ [r])"
      using Cons.prems by simp
    from Cons.IH [OF this] False show ?thesis by simp
  qed
qed

lemma unverified_sorted:
  "list_all (\<lambda>s. \<not> verified s) xs \<Longrightarrow> sorted (map distance_km xs) \<Longrightarrow>
   sorted (map verified_first_key xs)"
  by (induction xs) (auto simp: verified_first_key_def list_all_iff)

lemma sorted_key_unverified:
  "sorted (map verified_first_key (x # xs)) \<Longrightarrow> \<not> verified x \<Longrightarrow>
   list_all (\<lambda>s. \<not> verified s) xs \<and> sorted (map distance_km (x # xs))"
  by (induction xs arbitrary: x) (auto simp: verified_first_key_def list_all_iff)

lemma sorted_key_ordered:
  "sorted (map verified_first_key xs) \<Longrightarrow> ordered_verified_first xs"
proof (induction xs)
  case Nil
  then show ?case by (simp add: ordered_verified_first_def)
next
  case (Cons x xs)
  show ?case
  proof (cases "verified x")
    case True
    have ih: "ordered_verified_first xs" using Cons by simp
    have "\<forall>y\<in>set (takeWhile verified xs). distance_km x \<le> distance_km y"
    proof
      fix y assume y: "y \<in> set (takeWhile verified xs)"
      then have "y \<in> set xs" "verified y" by (auto dest: set_takeWhileD)
      moreover have "\<forall>z\<in>set xs. verified_first_key x \<le> verified_first_key z"
        using Cons.prems by simp
      ultimately show "distance_km x \<le> distance_km y"
        using True by (auto simp: verified_first_key_def)
    qed
    with ih True show ?thesis by (simp add: ordered_verified_first_def)
  next
    case False
    with sorted_key_unverified [OF Cons.prems] show ?thesis
      by (simp add: ordered_verified_first_def)
  qed
qed

lemma validate_sorted:
  "sorted (map verified_first_key (validate_stations_parallel probe completion stations target))"
  by (simp add: validate_stations_parallel_def)

lemma validate_length:
  assumes "\<forall>xs. length (completion xs) = length xs"
  shows "target \<le> length (validate_stations_parallel probe completion stations target) \<or>
         length (validate_stations_parallel probe completion stations target) = length stations"
  using collect_length [of 0 "[]" target "completion (map (validate_single probe) stations)"] assms
  by (simp add: validate_stations_parallel_def)

lemma validate_selected_sorted:
  assumes "length selected \<le> 20 \<or> (target \<le> 15 \<and> (\<forall>xs. length (completion xs) = length xs))"
  shows "sorted (map verified_first_key
           (take target (validate_selected probe completion selected target)))"
proof (cases "length selected \<le> 20")
  case True
  then show ?thesis
    using validate_sorted [of probe completion selected target]
    by (simp add: validate_selected_def take_map [symmetric])
next
  case False
  with assms have t: "target \<le> 15" and c: "\<forall>xs. length (completion xs) = length xs" by auto
  let ?q = "min (target * 3) 15"
  let ?V = "validate_stations_parallel probe completion (take ?q selected) target"
  have "length (take ?q selected) = ?q" using False by simp
  with validate_length [OF c, of target probe "take ?q selected"]
  have "target \<le> length ?V \<or> length ?V = ?q" by simp
  then have "target \<le> length ?V" using t by auto
  then show ?thesis
    using False validate_sorted [of probe completion "take ?q selected" target]
    by (simp add: validate_selected_def Let_def take_map [symmetric])
qed

lemma fallback_sorted:
  "sorted (map verified_first_key
     (fallback_station_list_optimized geo eq_lat eq_lon min_km max_km target))"
proof -
  let ?ys = "concat (map (fallback_entry geo eq_lat eq_lon min_km max_km) analysis_ready_stations)"
  have "list_all (\<lambda>s. \<not> verified s) ?ys"
    by (auto simp: list_all_iff fallback_entry_def verified_def Let_def
        split: option.splits if_splits)
  then have "list_all (\<lambda>s. \<not> verified s) (sort_key distance_km ?ys)"
    by (simp add: list_all_iff)
  then have "sorted (map verified_first_key (sort_key distance_km ?ys))"
    by (rule unverified_sorted) simp
  then show ?thesis
    by (simp add: fallback_station_list_optimized_def take_map [symmetric])
qed

lemma search_sorted:
  assumes "at_most_20_selected catalog target \<or>
           (target \<le> 15 \<and> (\<forall>xs. length (completion xs) = length xs))"
  shows "sorted (map verified_first_key
     (search_stations geo probe completion has_time eq_lat eq_lon catalog min_km max_km target
        has_placeholder))"
proof (cases catalog)
  case QueryRaises
  then show ?thesis by (simp add: search_stations_def)
next
  case (Usable all_stations)
  show ?thesis
  proof (cases "selected_for_validation all_stations target")
    case None
    then show ?thesis using Usable fallback_sorted [of geo eq_lat eq_lon min_km max_km target]
      by (simp add: search_stations_def selected_for_validation_def Let_def)
  next
    case (Some sel)
    have "length sel \<le> 20 \<or> (target \<le> 15 \<and> (\<forall>xs. length (completion xs) = length xs))"
      using assms Usable Some by (auto simp: at_most_20_selected_def)
    from validate_selected_sorted [OF this] Some Usable
      fallback_sorted [of geo eq_lat eq_lon min_km max_km target]
    show ?thesis
      by (simp add: search_stations_def selected_for_validation_def Let_def)
  qed
qed

lemma select_length:
  assumes "select_distributed_stations stations tc = Some sel"
  shows "length sel \<le> tc \<and> length sel \<le> length stations"
proof (cases "length stations \<le> tc")
  case True
  then show ?thesis using assms by (simp add: select_distributed_stations_def)
next
  case False
  have "length sel \<le> tc"
    using assms False
    by (auto simp: select_distributed_stations_def select_fast_def select_buckets_def Let_def
        split: if_splits)
  then show ?thesis using False by simp
qed

lemma small_target_at_most_20: "target \<le> 10 \<Longrightarrow> at_most_20_selected catalog target"
  by (auto simp: at_most_20_selected_def selected_for_validation_def Let_def
      split: catalog_outcome.splits option.splits dest!: select_length)

lemma small_catalog_at_most_20:
  "length all_stations \<le> 20 \<Longrightarrow> at_most_20_selected (Usable all_stations) target"
  by (auto simp: at_most_20_selected_def selected_for_validation_def Let_def
      split: option.splits dest!: select_length)

lemma fold_max_ge: "(a::nat) \<le> fold max xs a"
  by (induction xs arbitrary: a) (auto intro: order_trans [OF max.cobounded2])

lemma fold_max_mono: "(a::nat) \<le> b \<Longrightarrow> fold max xs a \<le> fold max xs b"
  by (induction xs arbitrary: a b) (auto simp: max.coboundedI2 max.coboundedI1)

lemma loop_left_bound:
  "loop_left_at target ys cnt now \<le> fold max (map fst ys) now"
proof (induction ys arbitrary: cnt now)
  case Nil
  then show ?case by simp
next
  case (Cons y ys)
  obtain t r where y: "y = (t, r)" by (cases y)
  show ?case
  proof (cases "target * 2 \<le> cnt")
    case True
    have "t \<le> fold max (map fst ys) (max t now)"
      by (rule order_trans [OF max.cobounded1 fold_max_ge])
    then show ?thesis using True y by simp
  next
    case False
    have "loop_left_at target ys (if verified r then cnt + 1 else cnt) t
           \<le> fold max (map fst ys) t" by (rule Cons.IH)
    also have "\<dots> \<le> fold max (map fst ys) (max t now)"
      by (rule fold_max_mono) simp
    finally show ?thesis using False y by simp
  qed
qed

lemma fold_max_Max: "fold max xs (a::nat) = Max (insert a (set xs))"
  by (metis Max.set_eq_fold list.simps(15))

text \<open>
  Whatever the target and the results, \<^verbatim>\<open>_validate_stations_parallel\<close> returns at the time
  at which the last submitted probe finishes.
\<close>

lemma returns_when_last_probe_done:
  "snd (validate_stations_timed probe runs target) = last_probe_done runs"
proof -
  let ?ys = "sort_key fst (map (\<lambda>(t, s). (t, validate_single probe s)) runs)"
  have "fst ` set ?ys = fst ` set runs" by (force simp: image_iff)
  then have "fold max (map fst ?ys) 0 = fold max (map fst runs) 0"
    unfolding fold_max_Max by simp
  with loop_left_bound [of target ?ys 0 0]
  show ?thesis by (simp add: validate_stations_timed_def last_probe_done_def Let_def)
qed

text \<open>
  The list returned depends on nothing that completes after the results holding
  \<open>2 * target_count\<close> verified stations.
\<close>

lemma later_results_not_consumed:
  assumes "completion (map (validate_single probe) stations) = pre @ rest"
    and "target * 2 \<le> length (filter verified pre)"
  shows "validate_stations_parallel probe completion stations target =
         sort_key verified_first_key (collect_results target pre [] 0)"
  using assms collect_prefix [of target 0 pre rest "[]"]
  by (simp add: validate_stations_parallel_def)

lemma search_length:
  "length (search_stations geo probe completion has_time eq_lat eq_lon catalog min_km max_km target
        has_placeholder) \<le> target"
  by (simp add: search_stations_def Let_def fallback_station_list_optimized_def
      split: catalog_outcome.splits option.splits)

text \<open>
  Claim C4 fails on the code: when the catalog query raises, \<^verbatim>\<open>search_stations\<close> returns
  the empty list through its \<^verbatim>\<open>except\<close> branch, although the fallback list for the same
  earthquake and distance window is not empty (here every fallback station lies 2000 km
  away and the window is 1000 to 5000 km).
\<close>

theorem catalog_failure_skips_fallback:
  "search_stations geo_2000km probe_all in_order True 40 20 QueryRaises 1000 5000 3 True = [] \<and>
   map station (fallback_station_list_optimized geo_2000km 40 20 1000 5000 3) =
     [''KEV'', ''BFO'', ''STU'']"
  by (simp add: search_stations_def fallback_station_list_optimized_def
      analysis_ready_stations_def fallback_entry_def geo_2000km_def py_round_def)


text \<open>
  Claim C6, as stated, at a target of 16 stations and a catalog of 21 stations, fifteen of
  a preferred network far away and six of another network nearby, none with data: more
  than 20 stations are selected, only the first fifteen (the far ones) are probed, and the
  sixteenth entry of the result is an unprobed station at 500 km that follows unverified
  stations at 1000 to 2400 km.
\<close>

theorem final_ordering_counterexample:
  "map distance_km
     (search_stations geo_2000km probe_none in_order True 40 20 (Usable far_and_near)
        400 3000 16 True) =
     [1000, 1100, 1200, 1300, 1400, 1500, 1600, 1700, 1800, 1900, 2000, 2100, 2200, 2300, 2400, 500] \<and>
   \<not> ordered_verified_first
     (search_stations geo_2000km probe_none in_order True 40 20 (Usable far_and_near)
        400 3000 16 True)"
  by code_simp

text \<open>
  Claim C6, amended: the returned list has at most \<open>target_count\<close> entries, and it has the
  verified stations first, by ascending distance, then the unverified and unknown ones, by
  ascending distance, whenever at most 20 stations are selected for verification, whatever
  the target, or the target is at most 15 and every submitted probe completes once (there
  are as many results as probes). What is left out is a target of 16 or more with more than
  20 stations selected.
\<close>

theorem final_ordering:
  assumes "at_most_20_selected catalog target \<or>
           (target \<le> 15 \<and> (\<forall>xs. length (completion xs) = length xs))"
  shows "ordered_verified_first
     (search_stations geo probe completion has_time eq_lat eq_lon catalog min_km max_km target
        has_placeholder) \<and>
   length (search_stations geo probe completion has_time eq_lat eq_lon catalog min_km max_km target
        has_placeholder) \<le> target"
  using sorted_key_ordered [OF search_sorted [OF assms]] search_length by blast

theorem final_ordering_witness:
  "at_most_20_selected (Usable (take 18 far_and_near)) 16 \<and>
   ordered_verified_first
     (search_stations geo_2000km probe_none in_order True 40 20 (Usable (take 18 far_and_near))
        400 3000 16 True) \<and>
   length (search_stations geo_2000km probe_none in_order True 40 20 (Usable (take 18 far_and_near))
        400 3000 16 True) \<le> 16"
proof -
  have h: "at_most_20_selected (Usable (take 18 far_and_near)) 16" by code_simp
  show ?thesis
    using h final_ordering [of "Usable (take 18 far_and_near)" 16 in_order geo_2000km probe_none
        True 40 20 400 3000 True, OF disjI1 [OF h]]
    by simp
qed

end
